theory Spec2Isabelle
  imports Complex_Main
begin

section \<open>The boundary of the liquid-glass filter: \<open>motion/liquid/filter.tsx\<close>\<close>

text \<open>
  JavaScript numbers are modelled as real numbers: the development is about the arithmetic
  the component writes down, not about IEEE rounding, infinities or NaN.

  A prop of type \<open>number | MotionValue<number>\<close> is either a plain number or a motion
  value, of which only the current value matters to one evaluation of the transforms.
\<close>

datatype num_or_motion = Num real | Motion real

text \<open>
  Modelled from the spec: \<open>getValueOrMotion\<close> is imported from \<open>./liquid-lib\<close>, which is not
  among the sources. Section 9 abstracts motion values as parameters that are read again
  on every change, so the helper returns the number itself, or the current value of the
  motion value.
\<close>

fun getValueOrMotion :: "num_or_motion \<Rightarrow> real" where
  "getValueOrMotion (Num x) = x"
| "getValueOrMotion (Motion v) = v"

text \<open>
  \<open>LiquidFilterProps\<close>. An optional prop that is left out (or passed as \<open>undefined\<close>) is
  \<open>None\<close>. \<open>scaleRatio\<close> can only be a motion value, kept as its current value.
\<close>

record LiquidFilterProps =
  idProp :: string
  filterOnlyProp :: "bool option"
  scaleRatioProp :: "real option"
  canvasWidthProp :: "num_or_motion option"
  canvasHeightProp :: "num_or_motion option"
  widthProp :: num_or_motion
  heightProp :: num_or_motion
  radiusProp :: num_or_motion
  blurProp :: "num_or_motion option"
  glassThicknessProp :: "num_or_motion option"
  bezelWidthProp :: "num_or_motion option"
  refractiveIndexProp :: "num_or_motion option"
  specularOpacityProp :: "num_or_motion option"
  specularSaturationProp :: "num_or_motion option"
  dprProp :: "num_or_motion option"
  bezelHeightFnProp :: "(real \<Rightarrow> real) option"

text \<open>A destructuring default \<open>name = d\<close> applies exactly when the prop is \<open>undefined\<close>.\<close>

fun orDefault :: "'a option \<Rightarrow> 'a \<Rightarrow> 'a" where
  "orDefault None d = d"
| "orDefault (Some v) d = v"

text \<open>
  The condition of \<open>prop ? a : b\<close>: \<open>undefined\<close> and the number 0 are falsy, every
  object (so every motion value, whatever it holds) is truthy.
\<close>

fun truthy :: "num_or_motion option \<Rightarrow> bool" where
  "truthy None = False"
| "truthy (Some (Num x)) = (x \<noteq> 0)"
| "truthy (Some (Motion v)) = True"

text \<open>The defaults of the parameter list of \<open>LiquidFilter\<close> (lines 89 to 106).\<close>

definition blur :: "LiquidFilterProps \<Rightarrow> num_or_motion" where
  "blur p = orDefault (blurProp p) (Num 0.2)"

definition glassThicknessOf :: "LiquidFilterProps \<Rightarrow> num_or_motion" where
  "glassThicknessOf p = orDefault (glassThicknessProp p) (Num 40)"

definition bezelWidthOf :: "LiquidFilterProps \<Rightarrow> num_or_motion" where
  "bezelWidthOf p = orDefault (bezelWidthProp p) (Num 20)"

definition refractiveIndexOf :: "LiquidFilterProps \<Rightarrow> num_or_motion" where
  "refractiveIndexOf p = orDefault (refractiveIndexProp p) (Num 1.5)"

definition specularOpacity :: "LiquidFilterProps \<Rightarrow> num_or_motion" where
  "specularOpacity p = orDefault (specularOpacityProp p) (Num 1)"

definition specularSaturation :: "LiquidFilterProps \<Rightarrow> num_or_motion" where
  "specularSaturation p = orDefault (specularSaturationProp p) (Num 4)"

text \<open>
  The object literal handed to \<open>getDisplacementData\<close> (lines 123 to 134). The default of
  \<open>bezelHeightFn\<close>, \<open>CONVEX.fn\<close>, lives in the missing \<open>./liquid-lib\<close> and is a parameter.
\<close>

record DisplacementArgs =
  glassThickness :: real
  bezelWidth :: real
  bezelHeightFn :: "real \<Rightarrow> real"
  refractiveIndex :: real
  canvasWidth :: real
  canvasHeight :: real
  objectWidth :: real
  objectHeight :: real
  radius :: real
  dpr :: real

definition canvasW :: "LiquidFilterProps \<Rightarrow> real" where
  "canvasW p = (if truthy (canvasWidthProp p) then getValueOrMotion (the (canvasWidthProp p))
                else getValueOrMotion (widthProp p))"

definition canvasH :: "LiquidFilterProps \<Rightarrow> real" where
  "canvasH p = (if truthy (canvasHeightProp p) then getValueOrMotion (the (canvasHeightProp p))
                else getValueOrMotion (heightProp p))"

definition devicePixelRatio :: "LiquidFilterProps \<Rightarrow> real" where
  "devicePixelRatio p = (if truthy (dprProp p) then getValueOrMotion (the (dprProp p)) else 1)"

definition clampedBezelWidth :: "LiquidFilterProps \<Rightarrow> real" where
  "clampedBezelWidth p =
     max (min (getValueOrMotion (bezelWidthOf p)) (2 * getValueOrMotion (radiusProp p) - 1)) 0"

definition displacementArgs :: "(real \<Rightarrow> real) \<Rightarrow> LiquidFilterProps \<Rightarrow> DisplacementArgs" where
  "displacementArgs CONVEX_fn p =
     \<lparr> glassThickness = getValueOrMotion (glassThicknessOf p),
       bezelWidth = clampedBezelWidth p,
       bezelHeightFn = orDefault (bezelHeightFnProp p) CONVEX_fn,
       refractiveIndex = getValueOrMotion (refractiveIndexOf p),
       canvasWidth = canvasW p,
       canvasHeight = canvasH p,
       objectWidth = getValueOrMotion (widthProp p),
       objectHeight = getValueOrMotion (heightProp p),
       radius = getValueOrMotion (radiusProp p),
       dpr = devicePixelRatio p \<rparr>"

text \<open>
  The positional arguments of \<open>calculateRefractionSpecular\<close> (lines 140 to 147); the
  light direction is passed as \<open>undefined\<close>. The transform computes its own
  \<open>devicePixelRatio\<close> with the same expression as the displacement transform.
\<close>

record SpecularArgs =
  specWidth :: real
  specHeight :: real
  specRadius :: real
  segments :: nat
  lightDirection :: "(real \<times> real) option"
  specDpr :: real

definition specularDevicePixelRatio :: "LiquidFilterProps \<Rightarrow> real" where
  "specularDevicePixelRatio p =
     (if truthy (dprProp p) then getValueOrMotion (the (dprProp p)) else 1)"

definition specularArgs :: "LiquidFilterProps \<Rightarrow> SpecularArgs" where
  "specularArgs p =
     \<lparr> specWidth = getValueOrMotion (widthProp p),
       specHeight = getValueOrMotion (heightProp p),
       specRadius = getValueOrMotion (radiusProp p),
       segments = 50,
       lightDirection = None,
       specDpr = specularDevicePixelRatio p \<rparr>"

text \<open>
  The attributes of the filter stages (lines 158 to 208). Both \<open>feImage\<close> elements
  spell out the canvas size again; \<open>stdDeviation\<close> is the blur itself when it is a
  motion value and a transform of the number otherwise, the same value either way.
\<close>

definition stdDeviation :: "LiquidFilterProps \<Rightarrow> real" where
  "stdDeviation p = (case blur p of Motion v \<Rightarrow> v | Num x \<Rightarrow> x)"

definition displacementImageWidth :: "LiquidFilterProps \<Rightarrow> real" where
  "displacementImageWidth p =
     (if truthy (canvasWidthProp p) then getValueOrMotion (the (canvasWidthProp p))
      else getValueOrMotion (widthProp p))"

definition displacementImageHeight :: "LiquidFilterProps \<Rightarrow> real" where
  "displacementImageHeight p =
     (if truthy (canvasHeightProp p) then getValueOrMotion (the (canvasHeightProp p))
      else getValueOrMotion (heightProp p))"

definition specularImageWidth :: "LiquidFilterProps \<Rightarrow> real" where
  "specularImageWidth p =
     (if truthy (canvasWidthProp p) then getValueOrMotion (the (canvasWidthProp p))
      else getValueOrMotion (widthProp p))"

definition specularImageHeight :: "LiquidFilterProps \<Rightarrow> real" where
  "specularImageHeight p =
     (if truthy (canvasHeightProp p) then getValueOrMotion (the (canvasHeightProp p))
      else getValueOrMotion (heightProp p))"

definition saturateValues :: "LiquidFilterProps \<Rightarrow> real" where
  "saturateValues p = getValueOrMotion (specularSaturation p)"

definition feFuncA_slope :: "LiquidFilterProps \<Rightarrow> real" where
  "feFuncA_slope p = getValueOrMotion (specularOpacity p)"

text \<open>
  \<open>scale\<close> (line 156) multiplies the \<open>maximumDisplacement\<close> of the displacement data by
  \<open>scaleRatio?.get() ?? 1\<close>; \<open>feDisplacementMap\<close> takes it as its \<open>scale\<close> attribute.
\<close>

definition scale :: "real \<Rightarrow> LiquidFilterProps \<Rightarrow> real" where
  "scale maximumDisplacement p = maximumDisplacement * orDefault (scaleRatioProp p) 1"

definition feDisplacementMap_scale :: "real \<Rightarrow> LiquidFilterProps \<Rightarrow> real" where
  "feDisplacementMap_scale maximumDisplacement p = scale maximumDisplacement p"

text \<open>Props with the three required sizes and every optional prop left out.\<close>

definition requiredOnly :: "real \<Rightarrow> real \<Rightarrow> real \<Rightarrow> LiquidFilterProps" where
  "requiredOnly w h r =
     \<lparr> idProp = ''glass'', filterOnlyProp = None, scaleRatioProp = None,
       canvasWidthProp = None, canvasHeightProp = None,
       widthProp = Num w, heightProp = Num h, radiusProp = Num r,
       blurProp = None, glassThicknessProp = None, bezelWidthProp = None,
       refractiveIndexProp = None, specularOpacityProp = None,
       specularSaturationProp = None, dprProp = None, bezelHeightFnProp = None \<rparr>"


section \<open>The displacement engine behind \<open>getDisplacementData\<close>\<close>

text \<open>
  Modelled from the spec: \<open>getDisplacementData\<close> (the \<open>computeDisplacement\<close> of section 6
  of the specification) is imported from \<open>./liquid-lib\<close>, which is not among the sources.
  The engine below is written from sections 4.3 to 4.6 and 7 of the specification, stage
  by stage. Two things the specification leaves open are parameters: the Geometry
  Resolver (section 4.1 fixes neither where the rounded rectangle sits on the canvas nor
  how a pixel index becomes a point, and its penetration formula disagrees with the
  glossary), and the choice between forward and central differences (section 4.4 allows
  both).
\<close>

type_synonym vec3 = "real \<times> real \<times> real"

text \<open>
  Modelled from the spec: the result of the Geometry Resolver at the device pixel \<open>(x, y)\<close>: \<open>None\<close> outside the
  shape, otherwise the penetration in \<open>[0, 1]\<close>, with 1 in the flat interior. It answers
  for any point, also beyond the canvas.
\<close>

type_synonym resolver = "DisplacementArgs \<Rightarrow> int \<Rightarrow> int \<Rightarrow> real option"

datatype stencil = Forward | Central

datatype engine_error = ConfigurationError | DivisionByZero

record ImageData =
  imgWidth :: nat
  imgHeight :: nat
  imgData :: "(int \<times> int \<times> int \<times> int) list"

record DisplacementData =
  displacementMap :: ImageData
  maximumDisplacement :: real

text \<open>
  Modelled from the spec: the Height Field Builder of section 4.3, missing with
  \<open>./liquid-lib\<close>. The height is the bezel profile at the penetration times the glass
  thickness, and 0 outside the shape.
\<close>

definition heightField :: "resolver \<Rightarrow> DisplacementArgs \<Rightarrow> int \<Rightarrow> int \<Rightarrow> real" where
  "heightField res a x y =
     (case res a x y of None \<Rightarrow> 0 | Some pen \<Rightarrow> glassThickness a * bezelHeightFn a pen)"

text \<open>
  Modelled from the spec: the Normal Estimator of section 4.4, missing with
  \<open>./liquid-lib\<close>. Finite differences of the height field with a step of one device
  pixel, and the normalised vector \<open>(-dh/dx, -dh/dy, 1)\<close>.
\<close>

fun slopeX :: "stencil \<Rightarrow> (int \<Rightarrow> int \<Rightarrow> real) \<Rightarrow> int \<Rightarrow> int \<Rightarrow> real" where
  "slopeX Forward h x y = h (x + 1) y - h x y"
| "slopeX Central h x y = (h (x + 1) y - h (x - 1) y) / 2"

fun slopeY :: "stencil \<Rightarrow> (int \<Rightarrow> int \<Rightarrow> real) \<Rightarrow> int \<Rightarrow> int \<Rightarrow> real" where
  "slopeY Forward h x y = h x (y + 1) - h x y"
| "slopeY Central h x y = (h x (y + 1) - h x (y - 1)) / 2"

definition normalise :: "vec3 \<Rightarrow> vec3" where
  "normalise v =
     (case v of (vx, vy, vz) \<Rightarrow>
        (vx / sqrt (vx\<^sup>2 + vy\<^sup>2 + vz\<^sup>2), vy / sqrt (vx\<^sup>2 + vy\<^sup>2 + vz\<^sup>2),
         vz / sqrt (vx\<^sup>2 + vy\<^sup>2 + vz\<^sup>2)))"

definition normalEstimator :: "stencil \<Rightarrow> (int \<Rightarrow> int \<Rightarrow> real) \<Rightarrow> int \<Rightarrow> int \<Rightarrow> vec3" where
  "normalEstimator st h x y = normalise (- slopeX st h x y, - slopeY st h x y, 1)"

text \<open>
  Modelled from the spec: the Refraction Simulator of section 4.5, missing with
  \<open>./liquid-lib\<close>. Snell's law in vector form for the incident ray \<open>(0, 0, -1)\<close>, with
  \<open>sin \<theta>2\<close> clamped to \<open>[0, 1]\<close>.
\<close>

fun dot :: "vec3 \<Rightarrow> vec3 \<Rightarrow> real" where
  "dot (ux, uy, uz) (vx, vy, vz) = ux * vx + uy * vy + uz * vz"

fun scaleV :: "real \<Rightarrow> vec3 \<Rightarrow> vec3" where
  "scaleV c (vx, vy, vz) = (c * vx, c * vy, c * vz)"

fun addV :: "vec3 \<Rightarrow> vec3 \<Rightarrow> vec3" where
  "addV (ux, uy, uz) (vx, vy, vz) = (ux + vx, uy + vy, uz + vz)"

definition incident :: vec3 where
  "incident = (0, 0, -1)"

definition clamp01 :: "real \<Rightarrow> real" where
  "clamp01 v = max 0 (min 1 v)"

definition cosTheta1 :: "vec3 \<Rightarrow> real" where
  "cosTheta1 N = dot (scaleV (-1) incident) N"

definition sinTheta1 :: "vec3 \<Rightarrow> real" where
  "sinTheta1 N = sqrt (1 - (cosTheta1 N)\<^sup>2)"

definition sinTheta2 :: "real \<Rightarrow> vec3 \<Rightarrow> real" where
  "sinTheta2 n N = clamp01 (sinTheta1 N / n)"

definition cosTheta2 :: "real \<Rightarrow> vec3 \<Rightarrow> real" where
  "cosTheta2 n N = sqrt (1 - (sinTheta2 n N)\<^sup>2)"

definition refractionSimulator :: "real \<Rightarrow> vec3 \<Rightarrow> vec3" where
  "refractionSimulator n N =
     addV (scaleV (1 / n) incident) (scaleV (cosTheta1 N / n - cosTheta2 n N) N)"

text \<open>
  Modelled from the spec: the end of section 4.5, missing with \<open>./liquid-lib\<close>. The
  refracted ray is followed from the surface down to the base plane:
  \<open>(dx, dy) = h(x, y) * (Tx, Ty) / Tz\<close>.
\<close>

definition projectToBase :: "real \<Rightarrow> vec3 \<Rightarrow> real \<times> real" where
  "projectToBase h T = (case T of (tx, ty, tz) \<Rightarrow> (h * tx / tz, h * ty / tz))"

definition displacementAt :: "resolver \<Rightarrow> stencil \<Rightarrow> DisplacementArgs \<Rightarrow> int \<Rightarrow> int \<Rightarrow> real \<times> real" where
  "displacementAt res st a x y =
     projectToBase (heightField res a x y)
       (refractionSimulator (refractiveIndex a) (normalEstimator st (heightField res a) x y))"

text \<open>
  Modelled from the spec: the buffers of section 6, missing with \<open>./liquid-lib\<close>. They are
  row-major, \<open>round (canvasWidth * dpr)\<close> by \<open>round (canvasHeight * dpr)\<close>: the pixel
  \<open>(x, y)\<close> has the index \<open>y * width + x\<close>.
\<close>

definition bufferWidth :: "DisplacementArgs \<Rightarrow> nat" where
  "bufferWidth a = nat (round (canvasWidth a * dpr a))"

definition bufferHeight :: "DisplacementArgs \<Rightarrow> nat" where
  "bufferHeight a = nat (round (canvasHeight a * dpr a))"

definition displacementField :: "resolver \<Rightarrow> stencil \<Rightarrow> DisplacementArgs \<Rightarrow> (real \<times> real) list" where
  "displacementField res st a =
     map (\<lambda>i. displacementAt res st a (int (i mod bufferWidth a)) (int (i div bufferWidth a)))
       [0 ..< bufferWidth a * bufferHeight a]"

text \<open>
  Modelled from the spec: the Displacement Map Encoder of section 4.6, missing with
  \<open>./liquid-lib\<close>. The maximum of \<open>|dx|\<close> and \<open>|dy|\<close> over the field; each channel is
  \<open>round (128 + 127 * d / maximumDisplacement)\<close> clamped to \<open>[0, 255]\<close>, and 128 when the
  maximum is 0; blue is 0 and alpha 255. The division is partial, so that a division by
  zero would show as \<open>None\<close>.
\<close>

fun maximumOf :: "(real \<times> real) list \<Rightarrow> real" where
  "maximumOf [] = 0"
| "maximumOf ((dx, dy) # ds) = max (max \<bar>dx\<bar> \<bar>dy\<bar>) (maximumOf ds)"

definition checkedDivide :: "real \<Rightarrow> real \<Rightarrow> real option" where
  "checkedDivide u v = (if v = 0 then None else Some (u / v))"

definition clampByte :: "int \<Rightarrow> int" where
  "clampByte v = max 0 (min 255 v)"

definition encodeChannel :: "real \<Rightarrow> real \<Rightarrow> int option" where
  "encodeChannel m d =
     (if m = 0 then Some 128
      else map_option (\<lambda>q. clampByte (round (128 + q))) (checkedDivide (127 * d) m))"

fun encodePixel :: "real \<Rightarrow> real \<times> real \<Rightarrow> (int \<times> int \<times> int \<times> int) option" where
  "encodePixel m (dx, dy) =
     (case encodeChannel m dx of
        None \<Rightarrow> None
      | Some r \<Rightarrow> (case encodeChannel m dy of None \<Rightarrow> None | Some g \<Rightarrow> Some (r, g, 0, 255)))"

fun encodePixels :: "real \<Rightarrow> (real \<times> real) list \<Rightarrow> (int \<times> int \<times> int \<times> int) list option" where
  "encodePixels m [] = Some []"
| "encodePixels m (d # ds) =
     (case encodePixel m d of
        None \<Rightarrow> None
      | Some p \<Rightarrow> (case encodePixels m ds of None \<Rightarrow> None | Some ps \<Rightarrow> Some (p # ps)))"

definition displacementMapEncoder ::
  "(real \<times> real) list \<Rightarrow> ((int \<times> int \<times> int \<times> int) list \<times> real) option" where
  "displacementMapEncoder field =
     map_option (\<lambda>ps. (ps, maximumOf field)) (encodePixels (maximumOf field) field)"

text \<open>
  Modelled from the spec: the consumer's decoding of section 4.6,
  \<open>(channel - 128) / 127 * maximumDisplacement\<close>.
\<close>

definition decodeChannel :: "real \<Rightarrow> int \<Rightarrow> real" where
  "decodeChannel m c = (of_int c - 128) / 127 * m"

fun decodePixel :: "real \<Rightarrow> int \<times> int \<times> int \<times> int \<Rightarrow> real \<times> real" where
  "decodePixel m (r, g, b, al) = (decodeChannel m r, decodeChannel m g)"

text \<open>
  Modelled from the spec: \<open>getDisplacementData\<close> itself, missing with \<open>./liquid-lib\<close>. A
  refractive index of at most 1 is rejected with a configuration error (section 7);
  otherwise the field is computed and encoded.
\<close>

definition getDisplacementData ::
  "resolver \<Rightarrow> stencil \<Rightarrow> DisplacementArgs \<Rightarrow> engine_error + DisplacementData" where
  "getDisplacementData res st a =
     (if refractiveIndex a \<le> 1 then Inl ConfigurationError
      else (case displacementMapEncoder (displacementField res st a) of
              None \<Rightarrow> Inl DivisionByZero
            | Some (ps, m) \<Rightarrow>
                Inr \<lparr> displacementMap =
                        \<lparr> imgWidth = bufferWidth a, imgHeight = bufferHeight a, imgData = ps \<rparr>,
                      maximumDisplacement = m \<rparr>))"

text \<open>
  The \<open>displacementData\<close> transform of \<open>LiquidFilter\<close> (lines 114 to 135) calls the engine
  on the object literal; an error the engine raises leaves the transform.
\<close>

definition displacementData ::
  "resolver \<Rightarrow> stencil \<Rightarrow> (real \<Rightarrow> real) \<Rightarrow> LiquidFilterProps \<Rightarrow> engine_error + DisplacementData" where
  "displacementData res st CONVEX_fn p = getDisplacementData res st (displacementArgs CONVEX_fn p)"


text \<open>
  Example inputs. A glass of \<open>w\<close> by \<open>h\<close> device pixels with corner radius 1/2 and no
  bezel, thickness 40 and refractive index 1.5, on a canvas that leaves a margin of one
  pixel on every side. The glass covers the pixels \<open>1 .. w\<close> by \<open>1 .. h\<close>, each of them at
  penetration 1 (section 4.1), and every other point is outside the shape.
\<close>

definition hardEdgeArgs :: "real \<Rightarrow> real \<Rightarrow> DisplacementArgs" where
  "hardEdgeArgs w h =
     \<lparr> glassThickness = 40, bezelWidth = 0, bezelHeightFn = (\<lambda>t. t), refractiveIndex = 1.5,
       canvasWidth = w + 2, canvasHeight = h + 2, objectWidth = w, objectHeight = h,
       radius = 1 / 2, dpr = 1 \<rparr>"

definition blockGlass :: resolver where
  "blockGlass a x y =
     (if 1 \<le> x \<and> of_int x \<le> objectWidth a \<and> 1 \<le> y \<and> of_int y \<le> objectHeight a
      then Some 1 else None)"


section \<open>Properties of the boundary\<close>

text \<open>
  C2, as stated: the bezel width handed to the engine always lies between 0 and
  \<open>2 * radius - 1\<close>. With radius 0 and the default bezel width the engine gets 0, and
  \<open>2 * radius - 1\<close> is \<open>-1\<close>.
\<close>

theorem C2_range_counterexample:
  "\<not> (0 \<le> bezelWidth (displacementArgs id (requiredOnly 70 40 0))
      \<and> bezelWidth (displacementArgs id (requiredOnly 70 40 0))
          \<le> 2 * radius (displacementArgs id (requiredOnly 70 40 0)) - 1)"
  by (simp add: displacementArgs_def clampedBezelWidth_def bezelWidthOf_def requiredOnly_def)

text \<open>
  C2, amended: the bezel width handed to the engine is
  \<open>max (min input (2 * radius - 1)) 0\<close>, where the input is the supplied bezel width or the
  default 20; it is never negative, and it is at most \<open>2 * radius - 1\<close> whenever that bound
  is itself not negative (otherwise it is 0).
\<close>

theorem C2_clampedBezelWidth:
  "bezelWidth (displacementArgs f p)
     = max (min (getValueOrMotion (orDefault (bezelWidthProp p) (Num 20)))
                (2 * radius (displacementArgs f p) - 1)) 0
   \<and> 0 \<le> bezelWidth (displacementArgs f p)
   \<and> (0 \<le> 2 * radius (displacementArgs f p) - 1
        \<longrightarrow> bezelWidth (displacementArgs f p) \<le> 2 * radius (displacementArgs f p) - 1)
   \<and> (2 * radius (displacementArgs f p) - 1 < 0 \<longrightarrow> bezelWidth (displacementArgs f p) = 0)"
  by (simp add: displacementArgs_def clampedBezelWidth_def bezelWidthOf_def)

theorem C2_clampedBezelWidth_witness:
  "(0::real) \<le> 2 * radius (displacementArgs id (requiredOnly 70 40 20)) - 1
   \<and> bezelWidth (displacementArgs id (requiredOnly 70 40 20)) = 20
   \<and> bezelWidth (displacementArgs id (requiredOnly 70 40 20))
        \<le> 2 * radius (displacementArgs id (requiredOnly 70 40 20)) - 1
   \<and> 2 * radius (displacementArgs id (requiredOnly 70 40 0)) - 1 < 0
   \<and> bezelWidth (displacementArgs id (requiredOnly 70 40 0)) = 0"
  using C2_clampedBezelWidth [of id "requiredOnly 70 40 20"]
        C2_clampedBezelWidth [of id "requiredOnly 70 40 0"]
  by (simp add: displacementArgs_def requiredOnly_def)

text \<open>
  C3: the doc comment of \<open>specularOpacity\<close> announces the default 0.4, and the claim repeats
  it. The parameter list says \<open>specularOpacity = 1\<close>: with the prop left out the slope of
  the specular layer's alpha is 1, not 0.4.
\<close>

theorem C3_specularOpacity_default_is_one:
  "feFuncA_slope (requiredOnly 70 40 20) = 1 \<and> feFuncA_slope (requiredOnly 70 40 20) \<noteq> 0.4"
  by (simp add: feFuncA_slope_def specularOpacity_def requiredOnly_def)

text \<open>
  C7: with the props left out, the blur is 0.2, the glass thickness 40, the bezel width
  entering the clamp 20, the refractive index 1.5 and the saturation 4; the specular
  computation is always called with 50 segments.
\<close>

theorem C7_defaults:
  assumes "blurProp p = None" and "glassThicknessProp p = None" and "bezelWidthProp p = None"
    and "refractiveIndexProp p = None" and "specularSaturationProp p = None"
  shows "stdDeviation p = 0.2
       \<and> glassThickness (displacementArgs f p) = 40
       \<and> getValueOrMotion (bezelWidthOf p) = 20
       \<and> bezelWidth (displacementArgs f p) = max (min 20 (2 * getValueOrMotion (radiusProp p) - 1)) 0
       \<and> refractiveIndex (displacementArgs f p) = 1.5
       \<and> saturateValues p = 4
       \<and> segments (specularArgs p) = 50"
  using assms
  by (simp add: stdDeviation_def blur_def displacementArgs_def glassThicknessOf_def
        bezelWidthOf_def clampedBezelWidth_def refractiveIndexOf_def saturateValues_def
        specularSaturation_def specularArgs_def)

theorem C7_defaults_witness:
  "blurProp (requiredOnly 70 40 20) = None
   \<and> glassThicknessProp (requiredOnly 70 40 20) = None
   \<and> bezelWidthProp (requiredOnly 70 40 20) = None
   \<and> refractiveIndexProp (requiredOnly 70 40 20) = None
   \<and> specularSaturationProp (requiredOnly 70 40 20) = None
   \<and> stdDeviation (requiredOnly 70 40 20) = 0.2
   \<and> glassThickness (displacementArgs id (requiredOnly 70 40 20)) = 40
   \<and> bezelWidth (displacementArgs id (requiredOnly 70 40 20)) = 20
   \<and> refractiveIndex (displacementArgs id (requiredOnly 70 40 20)) = 1.5
   \<and> saturateValues (requiredOnly 70 40 20) = 4
   \<and> segments (specularArgs (requiredOnly 70 40 20)) = 50"
proof -
  have h: "blurProp (requiredOnly 70 40 20) = None"
    "glassThicknessProp (requiredOnly 70 40 20) = None"
    "bezelWidthProp (requiredOnly 70 40 20) = None"
    "refractiveIndexProp (requiredOnly 70 40 20) = None"
    "specularSaturationProp (requiredOnly 70 40 20) = None"
    by (simp_all add: requiredOnly_def)
  have r: "getValueOrMotion (radiusProp (requiredOnly 70 40 20)) = 20"
    by (simp add: requiredOnly_def)
  show ?thesis
    using h C7_defaults [OF h, of id] by (simp add: r)
qed

text \<open>
  C8: the scale of the displacement-map stage is the maximum displacement returned by the
  displacement computation times the current value of \<open>scaleRatio\<close>, and times 1 when
  \<open>scaleRatio\<close> is not provided.
\<close>

theorem C8_scale:
  "feDisplacementMap_scale m p
     = m * (case scaleRatioProp p of None \<Rightarrow> 1 | Some s \<Rightarrow> s)"
  by (cases "scaleRatioProp p") (simp_all add: feDisplacementMap_scale_def scale_def)

text \<open>
  C9: with \<open>canvasWidth\<close> (\<open>canvasHeight\<close>) left out, the canvas width (height) of the
  displacement computation and the width (height) of both image layers are the object
  width (height).
\<close>

theorem C9_canvas_defaults_to_object:
  "(canvasWidthProp p = None \<longrightarrow>
      canvasWidth (displacementArgs f p) = objectWidth (displacementArgs f p)
    \<and> displacementImageWidth p = objectWidth (displacementArgs f p)
    \<and> specularImageWidth p = objectWidth (displacementArgs f p)
    \<and> objectWidth (displacementArgs f p) = getValueOrMotion (widthProp p))
   \<and> (canvasHeightProp p = None \<longrightarrow>
      canvasHeight (displacementArgs f p) = objectHeight (displacementArgs f p)
    \<and> displacementImageHeight p = objectHeight (displacementArgs f p)
    \<and> specularImageHeight p = objectHeight (displacementArgs f p)
    \<and> objectHeight (displacementArgs f p) = getValueOrMotion (heightProp p))"
  by (simp add: displacementArgs_def canvasW_def canvasH_def displacementImageWidth_def
        displacementImageHeight_def specularImageWidth_def specularImageHeight_def)

theorem C9_canvas_defaults_to_object_witness:
  "canvasWidthProp (requiredOnly 70 40 20) = None
   \<and> canvasHeightProp (requiredOnly 70 40 20) = None
   \<and> canvasWidth (displacementArgs id (requiredOnly 70 40 20)) = 70
   \<and> displacementImageWidth (requiredOnly 70 40 20) = 70
   \<and> specularImageWidth (requiredOnly 70 40 20) = 70
   \<and> canvasHeight (displacementArgs id (requiredOnly 70 40 20)) = 40
   \<and> displacementImageHeight (requiredOnly 70 40 20) = 40
   \<and> specularImageHeight (requiredOnly 70 40 20) = 40"
  using C9_canvas_defaults_to_object [of "requiredOnly 70 40 20" id]
  by (simp add: requiredOnly_def)

text \<open>
  C10: with \<open>dpr\<close> left out, the device pixel ratio of the displacement computation and of
  the specular computation is 1; and whatever \<open>dpr\<close> is, the two computations get the
  same ratio.
\<close>

theorem C10_dpr:
  "(dprProp p = None \<longrightarrow> dpr (displacementArgs f p) = 1 \<and> specDpr (specularArgs p) = 1)
   \<and> dpr (displacementArgs f p) = specDpr (specularArgs p)"
  by (simp add: displacementArgs_def specularArgs_def devicePixelRatio_def
        specularDevicePixelRatio_def)

theorem C10_dpr_witness:
  "dprProp (requiredOnly 70 40 20) = None
   \<and> dpr (displacementArgs id (requiredOnly 70 40 20)) = 1
   \<and> specDpr (specularArgs (requiredOnly 70 40 20)) = 1"
  using C10_dpr [of "requiredOnly 70 40 20" id]
  by (simp add: requiredOnly_def)

section \<open>The encoder and its decoding\<close>

text \<open>The encoder never fails: each channel and each pixel has a value.\<close>

lemma encodeChannel_value:
  "encodeChannel m d = Some (if m = 0 then 128 else clampByte (round (128 + 127 * d / m)))"
  by (simp add: encodeChannel_def checkedDivide_def)

lemma encodePixel_value:
  "encodePixel m d = Some (the (encodeChannel m (fst d)), the (encodeChannel m (snd d)), 0, 255)"
  by (cases d) (simp add: encodeChannel_value)

lemma encodePixels_value:
  "encodePixels m ds = Some (map (\<lambda>d. the (encodePixel m d)) ds)"
  by (induction ds) (simp_all add: encodePixel_value)




lemma maximumOf_bound:
  "i < length ds \<Longrightarrow> \<bar>fst (ds ! i)\<bar> \<le> maximumOf ds \<and> \<bar>snd (ds ! i)\<bar> \<le> maximumOf ds"
proof (induction ds arbitrary: i rule: maximumOf.induct)
  case 1
  then show ?case by simp
next
  case (2 dx dy ds)
  show ?case
  proof (cases i)
    case 0
    then show ?thesis by (simp add: max_def)
  next
    case (Suc j)
    with 2 have "\<bar>fst (ds ! j)\<bar> \<le> maximumOf ds \<and> \<bar>snd (ds ! j)\<bar> \<le> maximumOf ds" by simp
    with Suc show ?thesis by (simp add: max_def)
  qed
qed


text \<open>
  One channel, encoded and decoded again, is off by at most half a step of the 127 steps
  between the neutral value and the maximum.
\<close>

lemma channel_roundtrip:
  assumes m: "0 < m" and d: "\<bar>d\<bar> \<le> m"
  shows "\<bar>decodeChannel m (the (encodeChannel m d)) - d\<bar> \<le> m / 254"
proof -
  define v where "v = 128 + 127 * d / m"
  have q: "- 1 \<le> d / m" "d / m \<le> 1" using m d by (simp_all add: field_simps abs_le_iff)
  have vr: "1 \<le> v" "v \<le> 255" unfolding v_def using q by simp_all
  have r1: "of_int (round v) \<ge> v - 1/2" by (rule of_int_round_ge)
  have r2: "of_int (round v) \<le> v + 1/2" by (rule of_int_round_le)
  have lo: "0 \<le> round v" using vr r1 by linarith
  have hi: "round v \<le> 255" using vr r2 by linarith
  have enc: "the (encodeChannel m d) = round v"
    using m lo hi by (simp add: encodeChannel_value clampByte_def v_def)
  have dv: "d = (v - 128) / 127 * m" using m by (simp add: v_def)
  have "(of_int (round v) - 128) / 127 * m - (v - 128) / 127 * m
          = (of_int (round v) - v) / 127 * m"
    by (simp add: field_simps)
  with dv have "decodeChannel m (round v) - d = (of_int (round v) - v) / 127 * m"
    unfolding decodeChannel_def by simp
  moreover have "\<bar>(of_int (round v) - v) / 127 * m\<bar> = \<bar>of_int (round v) - v\<bar> * m / 127"
    using m by (simp add: abs_mult)
  ultimately have "\<bar>decodeChannel m (round v) - d\<bar> = \<bar>of_int (round v) - v\<bar> * m / 127"
    by (simp only:)
  moreover have "\<bar>of_int (round v) - v\<bar> \<le> 1/2" using r1 r2 by linarith
  then have "\<bar>of_int (round v) - v\<bar> * m \<le> 1/2 * m"
    using m by (intro mult_right_mono) simp_all
  ultimately have "\<bar>decodeChannel m (round v) - d\<bar> \<le> m / 254"
    by simp
  then show ?thesis using enc by simp
qed

lemma two_pixel_field:
  "maximumOf [(1, 0), (254, 0)] = 254"
  "displacementMapEncoder [(1, 0), (254, 0)] = Some ([(129, 128, 0, 255), (255, 128, 0, 255)], 254)"
  by (simp_all add: displacementMapEncoder_def encodeChannel_def checkedDivide_def clampByte_def
      round_def)


section \<open>Refraction at one pixel\<close>

lemma cosTheta1_eq: "cosTheta1 (nx, ny, nz) = nz"
  by (simp add: cosTheta1_def incident_def)

lemma normalise_up: "normalise (0, 0, 1) = (0, 0, 1)"
  by (simp add: normalise_def)

lemma refraction_up: "refractionSimulator n (0, 0, 1) = (0, 0, -1)"
  by (simp add: refractionSimulator_def cosTheta1_eq cosTheta2_def sinTheta2_def sinTheta1_def
      clamp01_def incident_def)



lemma displacementAt_flat:
  assumes "slopeX st (heightField res a) x y = 0" and "slopeY st (heightField res a) x y = 0"
  shows "displacementAt res st a x y = (0, 0)"
  using assms
  by (simp add: displacementAt_def normalEstimator_def normalise_up refraction_up projectToBase_def)

section \<open>The engine as a whole\<close>

lemma getDisplacementData_value:
  assumes "1 < refractiveIndex a"
  shows "getDisplacementData res st a =
     Inr \<lparr> displacementMap =
             \<lparr> imgWidth = bufferWidth a, imgHeight = bufferHeight a,
               imgData = map (\<lambda>d. the (encodePixel (maximumOf (displacementField res st a)) d))
                           (displacementField res st a) \<rparr>,
           maximumDisplacement = maximumOf (displacementField res st a) \<rparr>"
  using assms
  by (simp add: getDisplacementData_def displacementMapEncoder_def encodePixels_value)






section \<open>Properties of the engine\<close>

text \<open>
  C4: a refractive index of at most 1 makes the displacement computation fail with a
  configuration error, for the engine called directly and for the \<open>displacementData\<close>
  transform of \<open>LiquidFilter\<close>, which hands the supplied index on unchanged (the default
  1.5 applies only when the prop is left out).
\<close>

theorem C4_rejects_refractive_index_at_most_one:
  "(refractiveIndex a \<le> 1 \<longrightarrow> getDisplacementData res st a = Inl ConfigurationError)
   \<and> (getValueOrMotion (orDefault (refractiveIndexProp p) (Num 1.5)) \<le> 1 \<longrightarrow>
        displacementData res st f p = Inl ConfigurationError)"
  by (simp add: getDisplacementData_def displacementData_def displacementArgs_def
      refractiveIndexOf_def)

theorem C4_rejects_refractive_index_at_most_one_witness:
  "refractiveIndex (hardEdgeArgs 1 1 \<lparr> refractiveIndex := 1 \<rparr>) \<le> 1
   \<and> getDisplacementData blockGlass Forward (hardEdgeArgs 1 1 \<lparr> refractiveIndex := 1 \<rparr>)
        = Inl ConfigurationError
   \<and> getValueOrMotion (orDefault
        (refractiveIndexProp (requiredOnly 70 40 20 \<lparr> refractiveIndexProp := Some (Num 0.9) \<rparr>))
        (Num 1.5)) \<le> 1
   \<and> displacementData blockGlass Forward id
        (requiredOnly 70 40 20 \<lparr> refractiveIndexProp := Some (Num 0.9) \<rparr>)
        = Inl ConfigurationError"
  using C4_rejects_refractive_index_at_most_one
      [of "hardEdgeArgs 1 1 \<lparr> refractiveIndex := 1 \<rparr>" blockGlass Forward
          "requiredOnly 70 40 20 \<lparr> refractiveIndexProp := Some (Num 0.9) \<rparr>" id]
  by (simp add: hardEdgeArgs_def requiredOnly_def)



text \<open>
  C6, as stated: the decoded value is within \<open>maximumDisplacement / 255\<close> of the original.
  In a field with the displacements 1 and 254 along \<open>x\<close>, the first pixel is encoded as
  \<open>round 128.5 = 129\<close> and decodes to 2, which is off by 1, more than \<open>254 / 255\<close>.
\<close>

theorem C6_bound_255_counterexample:
  "displacementMapEncoder [(1, 0), (254, 0)] = Some ([(129, 128, 0, 255), (255, 128, 0, 255)], 254)
   \<and> fst (decodePixel 254 (129, 128, 0, 255)) = 2
   \<and> \<not> \<bar>fst (decodePixel 254 (129, 128, 0, 255)) - 1\<bar> \<le> 254 / 255"
  by (simp add: two_pixel_field decodeChannel_def)

text \<open>
  C6, amended: for every displacement field with a maximum above 0, the encoder returns
  one pixel for each displacement, and decoding a pixel by
  \<open>(channel - 128) / 127 * maximumDisplacement\<close> gives back its \<open>dx\<close> and its \<open>dy\<close> to within
  \<open>maximumDisplacement / 254\<close>, half a step of the 127 steps of a channel.
\<close>

theorem C6_roundtrip_within_254th:
  assumes "0 < maximumOf field" and "i < length field"
  shows "\<exists>ps. displacementMapEncoder field = Some (ps, maximumOf field)
          \<and> length ps = length field
          \<and> \<bar>fst (decodePixel (maximumOf field) (ps ! i)) - fst (field ! i)\<bar> \<le> maximumOf field / 254
          \<and> \<bar>snd (decodePixel (maximumOf field) (ps ! i)) - snd (field ! i)\<bar> \<le> maximumOf field / 254"
proof -
  let ?m = "maximumOf field"
  let ?ps = "map (\<lambda>d. the (encodePixel ?m d)) field"
  have b: "\<bar>fst (field ! i)\<bar> \<le> ?m" "\<bar>snd (field ! i)\<bar> \<le> ?m"
    using maximumOf_bound [OF assms(2)] by simp_all
  have p: "?ps ! i = (the (encodeChannel ?m (fst (field ! i))),
                      the (encodeChannel ?m (snd (field ! i))), 0, 255)"
    using assms(2) by (simp add: encodePixel_value)
  have "displacementMapEncoder field = Some (?ps, ?m)"
    by (simp add: displacementMapEncoder_def encodePixels_value)
  moreover have "length ?ps = length field" by simp
  moreover have "\<bar>fst (decodePixel ?m (?ps ! i)) - fst (field ! i)\<bar> \<le> ?m / 254"
    unfolding p using channel_roundtrip [OF assms(1) b(1)] by simp
  moreover have "\<bar>snd (decodePixel ?m (?ps ! i)) - snd (field ! i)\<bar> \<le> ?m / 254"
    unfolding p using channel_roundtrip [OF assms(1) b(2)] by simp
  ultimately show ?thesis by blast
qed

theorem C6_roundtrip_within_254th_witness:
  "0 < maximumOf [(1, 0), (254, 0)] \<and> (0::nat) < length [(1::real, 0::real), (254, 0)]
   \<and> displacementMapEncoder [(1, 0), (254, 0)] = Some ([(129, 128, 0, 255), (255, 128, 0, 255)], 254)
   \<and> \<bar>fst (decodePixel 254 (129, 128, 0, 255)) - 1\<bar> \<le> 254 / 254"
  using C6_roundtrip_within_254th [of "[(1, 0), (254, 0)]" 0]
  by (simp add: two_pixel_field)

end
